theory Spec2Isabelle
  imports Complex_Main "HOL-Library.Char_ord" "HOL-Library.List_Lexorder"
begin

section \<open>CareVerify: the claim trust-scoring pipeline\<close>

text \<open>
  A shallow embedding of the scoring core of CareVerify: the ensemble engine
  (\<^verbatim>\<open>ai/models/ensemble_engine.py\<close>), the duplicate check of the feature
  pipeline (\<^verbatim>\<open>ai/pipeline/feature_engineering.py\<close>), the fact extractor
  (\<^verbatim>\<open>app/services/extraction_service.py\<close>), the revalidation orchestrator
  (\<^verbatim>\<open>app/services/revalidation_service.py\<close>) and the analysis task it
  queues (\<^verbatim>\<open>app/tasks/ai_tasks.py\<close>).

  Numbers. A Python float is the real number it denotes, and every arithmetic
  operation is the exact operation followed by rounding to the nearest double, a
  tie going to the even significand, as IEEE 754 prescribes; the feature vector is
  rounded to \<^verbatim>\<open>float32\<close> in the same way. A decimal literal of the source
  (\<^verbatim>\<open>0.30\<close>, \<^verbatim>\<open>0.9\<close>) is the double nearest to it. Overflow to infinity
  and NaN are outside the model, except that the NaN numpy returns for the variance
  of an empty list is the value \<open>None\<close>.
\<close>

subsection \<open>IEEE 754 rounding\<close>

text \<open>The nearest integer, a tie going to the even one.\<close>

definition round_half_even :: "real \<Rightarrow> int" where
  "round_half_even x =
     (let f = \<lfloor>x\<rfloor>; d = x - of_int f
      in if d < 1 / 2 then f
         else if 1 / 2 < d then f + 1
         else if even f then f else f + 1)"

text \<open>
  The binary exponent of a positive number: \<open>ilog2 x = e\<close> where
  \<open>2\<^sup>e \<le> x < 2\<^sup>e\<^sup>+\<^sup>1\<close>, found by halving or doubling.
\<close>

function ilog2_up :: "real \<Rightarrow> int" where
  "ilog2_up x = (if x < 2 then 0 else 1 + ilog2_up (x / 2))"
  by pat_completeness auto
termination
proof (relation "measure (\<lambda>x. nat \<lfloor>x\<rfloor>)")
  show "wf (measure (\<lambda>x::real. nat \<lfloor>x\<rfloor>))" by simp
next
  fix x :: real
  assume "\<not> x < 2"
  then have "\<lfloor>x / 2\<rfloor> < \<lfloor>x\<rfloor>" "0 < \<lfloor>x\<rfloor>" by linarith+
  then show "(x / 2, x) \<in> measure (\<lambda>x. nat \<lfloor>x\<rfloor>)" by simp
qed

function ilog2_down :: "real \<Rightarrow> int" where
  "ilog2_down x = (if 1 \<le> x \<or> x \<le> 0 then 0 else ilog2_down (2 * x) - 1)"
  by pat_completeness auto
termination
proof (relation "measure (\<lambda>x. nat \<lceil>1 / x\<rceil>)")
  show "wf (measure (\<lambda>x::real. nat \<lceil>1 / x\<rceil>))" by simp
next
  fix x :: real
  assume "\<not> (1 \<le> x \<or> x \<le> 0)"
  then have x: "0 < x" "x < 1" by auto
  then have y: "1 < 1 / x" by simp
  then have c: "2 \<le> \<lceil>1 / x\<rceil>" by linarith
  have "1 / (2 * x) = (1 / x) / 2" by simp
  also have "\<dots> \<le> of_int \<lceil>1 / x\<rceil> / 2" by (simp add: divide_right_mono)
  also have "\<dots> \<le> of_int (\<lceil>1 / x\<rceil> - 1)" using c by simp
  finally have "\<lceil>1 / (2 * x)\<rceil> \<le> \<lceil>1 / x\<rceil> - 1" by (rule ceiling_le)
  with c have "nat \<lceil>1 / (2 * x)\<rceil> < nat \<lceil>1 / x\<rceil>" by linarith
  then show "(2 * x, x) \<in> measure (\<lambda>x. nat \<lceil>1 / x\<rceil>)" by simp
qed

declare ilog2_up.simps [simp del] ilog2_down.simps [simp del]

definition ilog2 :: "real \<Rightarrow> int" where
  "ilog2 x = (if 1 \<le> x then ilog2_up x else ilog2_down x)"

text \<open>
  Rounding to the multiples of \<open>2\<^sup>e\<close>, and to a binary floating-point format with
  \<open>p\<close> significant bits and least normal exponent \<open>emin\<close>: the spacing of the
  format at \<open>x\<close> is \<open>2\<close> to the power \<open>max (ilog2 |x|) emin - (p - 1)\<close>,
  which covers the subnormal numbers as well.
\<close>

definition round_grid :: "int \<Rightarrow> real \<Rightarrow> real" where
  "round_grid e x = of_int (round_half_even (x / 2 powi e)) * 2 powi e"

definition round_to :: "nat \<Rightarrow> int \<Rightarrow> real \<Rightarrow> real" where
  "round_to p emin x = round_grid (max (ilog2 \<bar>x\<bar>) emin - (int p - 1)) x"

definition dbl :: "real \<Rightarrow> real" where
  "dbl x = round_to 53 (- 1022) x"

definition f32 :: "real \<Rightarrow> real" where
  "f32 x = round_to 24 (- 126) x"

text \<open>Python's \<open>+\<close>, \<open>-\<close>, \<open>*\<close> and \<open>/\<close> (by a non-zero divisor) on floats.\<close>

definition fadd :: "real \<Rightarrow> real \<Rightarrow> real" where
  "fadd a b = dbl (a + b)"

definition fsub :: "real \<Rightarrow> real \<Rightarrow> real" where
  "fsub a b = dbl (a - b)"

definition fmul :: "real \<Rightarrow> real \<Rightarrow> real" where
  "fmul a b = dbl (a * b)"

definition fdiv :: "real \<Rightarrow> real \<Rightarrow> real" where
  "fdiv a b = dbl (a / b)"

subsection \<open>Python and numpy primitives\<close>

text \<open>\<^verbatim>\<open>np.clip(x, lo, hi)\<close> is \<^verbatim>\<open>minimum(maximum(x, lo), hi)\<close>.\<close>

definition np_clip :: "real \<Rightarrow> real \<Rightarrow> real \<Rightarrow> real" where
  "np_clip x lo hi = min (max x lo) hi"

text \<open>
  \<^verbatim>\<open>round(x, n)\<close> on a float: the exact value of \<open>x\<close> is rounded to \<open>n\<close>
  decimals, a tie going to the even neighbour, and the result is the double nearest
  to that decimal.
\<close>

definition py_round :: "real \<Rightarrow> nat \<Rightarrow> real" where
  "py_round x n = dbl (of_int (round_half_even (x * 10 ^ n)) / 10 ^ n)"

text \<open>Python's \<^verbatim>\<open>min(a, b)\<close> returns \<open>a\<close> unless \<open>b < a\<close>.\<close>

definition py_min :: "real \<Rightarrow> real \<Rightarrow> real" where
  "py_min a b = (if b < a then b else a)"

text \<open>
  The mean and the population variance of a list of numbers, in exact arithmetic.
  They state what the specification calls the variance; the code calls
  \<^verbatim>\<open>np.var\<close>, a parameter below.
\<close>

definition mean :: "real list \<Rightarrow> real" where
  "mean xs = sum_list xs / of_nat (length xs)"

definition variance :: "real list \<Rightarrow> real" where
  "variance xs = sum_list (map (\<lambda>x. (x - mean xs)\<^sup>2) xs) / of_nat (length xs)"

subsection \<open>The ensemble engine\<close>

text \<open>
  The keys of the dictionary \<^verbatim>\<open>WEIGHTS\<close> are five string literals, and every
  lookup in the source uses one of these literals: the keys are a datatype and the
  dictionary a total function on it. \<open>WEIGHTS\<close> gives the literals as written; the
  floats the dictionary holds are \<open>dbl (WEIGHTS k)\<close>.
\<close>

datatype model_key = xgboost | rf | isolation | autoencoder | nlp

fun WEIGHTS :: "model_key \<Rightarrow> real" where
  "WEIGHTS xgboost = 0.30"
| "WEIGHTS rf = 0.25"
| "WEIGHTS isolation = 0.20"
| "WEIGHTS autoencoder = 0.15"
| "WEIGHTS nlp = 0.10"

definition WEIGHTS_keys :: "model_key list" where
  "WEIGHTS_keys = [xgboost, rf, isolation, autoencoder, nlp]"

definition compute_trust_score :: "real \<Rightarrow> real \<Rightarrow> real \<Rightarrow> real \<Rightarrow> real \<Rightarrow> real" where
  "compute_trust_score xgb rf' iso' ae nlp' =
     (let trust =
            fadd (fadd (fadd (fadd
              (fmul (dbl (WEIGHTS xgboost)) (fsub 1.0 xgb))
              (fmul (dbl (WEIGHTS rf)) rf'))
              (fmul (dbl (WEIGHTS isolation)) (fsub 1.0 iso')))
              (fmul (dbl (WEIGHTS autoencoder)) (fsub 1.0 ae)))
              (fmul (dbl (WEIGHTS nlp)) (fsub 1.0 nlp'))
      in py_round (np_clip (fmul trust 100) 0 100) 2)"

text \<open>
  The trust score in the words of the specification: the weighted sum in exact
  arithmetic, times 100, clipped to \<open>[0, 100]\<close> and rounded to two decimals.
\<close>

definition spec_trust_score :: "real \<Rightarrow> real \<Rightarrow> real \<Rightarrow> real \<Rightarrow> real \<Rightarrow> real" where
  "spec_trust_score fraud approval stat_anom deep_anom doc_inconsistency =
     of_int (round_half_even (100 * np_clip
       (100 * (0.30 * (1 - fraud) + 0.25 * approval + 0.20 * (1 - stat_anom)
               + 0.15 * (1 - deep_anom) + 0.10 * (1 - doc_inconsistency))) 0 100)) / 100"

text \<open>
  \<^verbatim>\<open>_compute_confidence\<close>. numpy's \<^verbatim>\<open>np.var\<close> is a parameter, as are the
  other library functions below: it returns a double, or NaN (\<open>None\<close>) on an empty
  list, and the order in which it sums belongs to numpy.
\<close>

definition compute_confidence :: "(real list \<Rightarrow> real option) \<Rightarrow> real list \<Rightarrow> real option" where
  "compute_confidence np_var scores =
     (case np_var scores of
        None \<Rightarrow> None
      | Some var \<Rightarrow>
          Some (py_round (np_clip (fsub 1.0 (py_min (fmul var 4) (dbl 0.9))) (dbl 0.1) 1.0) 3))"

definition determine_recommendation :: "real \<Rightarrow> string" where
  "determine_recommendation trust_score =
     (if trust_score \<ge> 85 then ''AUTO_APPROVE''
      else if trust_score \<ge> 60 then ''APPROVE_WITH_REVIEW''
      else if trust_score \<ge> 40 then ''COMPLIANCE_REVIEW_REQUIRED''
      else ''HIGH_RISK_HOLD'')"

text \<open>
  \<^verbatim>\<open>analyze\<close>, from the five adapter scores on. The adapters themselves call
  learned models, TensorFlow and spaCy; their outputs are the arguments here. The
  confidence is computed from the four non-text scores, in this order.
\<close>

record ensemble_result =
  trust_score :: real
  fraud_probability :: real
  anomaly_score :: real
  approval_likelihood :: real
  recommendation :: string
  confidence :: "real option"

definition analyze ::
  "(real list \<Rightarrow> real option) \<Rightarrow> real \<Rightarrow> real \<Rightarrow> real \<Rightarrow> real \<Rightarrow> real \<Rightarrow> ensemble_result" where
  "analyze np_var xgb_score rf_score iso_score ae_score nlp_score =
     (let trust = compute_trust_score xgb_score rf_score iso_score ae_score nlp_score;
          rec = determine_recommendation trust;
          conf = compute_confidence np_var [xgb_score, rf_score, iso_score, ae_score]
      in \<lparr>trust_score = trust,
          fraud_probability = py_round xgb_score 4,
          anomaly_score = py_round (fdiv (fadd iso_score ae_score) 2) 4,
          approval_likelihood = py_round rf_score 4,
          recommendation = rec,
          confidence = conf\<rparr>)"

subsection \<open>The feature vector and the rule-based fraud fallback\<close>

record claim_features =
  claimed_amount :: real
  patient_age :: int
  length_of_stay :: int
  procedure_count :: int
  diagnosis_count :: int
  org_trust_score :: real
  org_historical_fraud_rate :: real
  org_claim_volume_30d :: int
  amount_vs_org_avg :: real
  amount_vs_procedure_avg :: real
  is_weekend_admission :: int
  is_holiday :: int
  has_high_value_procedures :: int
  duplicate_claim_flag :: int
  rapid_readmission :: int
  unusual_provider_combo :: int
  nlp_inconsistency_score :: real
  nlp_urgency_score :: real
  ocr_completeness_score :: real
  missing_required_fields :: int

text \<open>The defaults of the dataclass \<^verbatim>\<open>ClaimFeatures\<close>.\<close>

definition default_features :: claim_features where
  "default_features =
     \<lparr>claimed_amount = 0.0, patient_age = 0, length_of_stay = 0, procedure_count = 0,
      diagnosis_count = 0, org_trust_score = 50.0, org_historical_fraud_rate = dbl 0.05,
      org_claim_volume_30d = 0, amount_vs_org_avg = 1.0, amount_vs_procedure_avg = 1.0,
      is_weekend_admission = 0, is_holiday = 0, has_high_value_procedures = 0,
      duplicate_claim_flag = 0, rapid_readmission = 0, unusual_provider_combo = 0,
      nlp_inconsistency_score = 0.0, nlp_urgency_score = 0.0,
      ocr_completeness_score = 1.0, missing_required_fields = 0\<rparr>"

text \<open>
  The array \<open>X\<close> has shape \<open>(1, 20)\<close> and element type \<^verbatim>\<open>float32\<close>: every
  field is rounded to the nearest \<^verbatim>\<open>float32\<close>. The model keeps its only row, so
  that \<^verbatim>\<open>X[0, i]\<close> is the \<open>i\<close>-th element, an \<^verbatim>\<open>IndexError\<close> out of range.
\<close>

definition extract_feature_vector :: "claim_features \<Rightarrow> real list" where
  "extract_feature_vector features =
     map f32
       [claimed_amount features,
        of_int (patient_age features),
        of_int (length_of_stay features),
        of_int (procedure_count features),
        of_int (diagnosis_count features),
        org_trust_score features,
        org_historical_fraud_rate features,
        of_int (org_claim_volume_30d features),
        amount_vs_org_avg features,
        amount_vs_procedure_avg features,
        of_int (is_weekend_admission features),
        of_int (is_holiday features),
        of_int (has_high_value_procedures features),
        of_int (duplicate_claim_flag features),
        of_int (rapid_readmission features),
        of_int (unusual_provider_combo features),
        nlp_inconsistency_score features,
        nlp_urgency_score features,
        ocr_completeness_score features,
        of_int (missing_required_fields features)]"

datatype py_error = IndexError

definition at_index :: "real list \<Rightarrow> nat \<Rightarrow> py_error + real" where
  "at_index X i = (if i < length X then Inr (X ! i) else Inl IndexError)"

definition rule_based_fraud_score :: "real list \<Rightarrow> py_error + real" where
  "rule_based_fraud_score X =
     (case at_index X 8 of
        Inl e \<Rightarrow> Inl e
      | Inr x8 \<Rightarrow>
         (let score = 0.0;
              score = (if x8 > 3.0 then fadd score (dbl 0.3) else score)
          in (case at_index X 13 of
                Inl e \<Rightarrow> Inl e
              | Inr x13 \<Rightarrow>
                 (let score = (if x13 = 1 then fadd score (dbl 0.4) else score)
                  in (case at_index X 14 of
                        Inl e \<Rightarrow> Inl e
                      | Inr x14 \<Rightarrow>
                         (let score = (if x14 = 1 then fadd score (dbl 0.2) else score)
                          in Inr (np_clip score 0 1)))))))"

text \<open>
  The engine holds the fraud model, if one was loaded. A loaded model is a function
  from the feature vector to a probability; \<open>None\<close> is an inference that raises,
  which \<^verbatim>\<open>_run_xgboost\<close> logs before it falls back to the rule.
\<close>

record engine =
  xgb_model :: "(real list \<Rightarrow> real option) option"

definition run_xgboost :: "engine \<Rightarrow> real list \<Rightarrow> py_error + real" where
  "run_xgboost eng X =
     (case xgb_model eng of
        None \<Rightarrow> rule_based_fraud_score X
      | Some predict_proba \<Rightarrow>
          (case predict_proba X of
             Some p \<Rightarrow> Inr p
           | None \<Rightarrow> rule_based_fraud_score X))"

text \<open>
  \<^verbatim>\<open>build_features\<close> computes the amount ratio as the claimed amount over the
  organisation's average, or \<open>1.0\<close> when the average is not positive.
\<close>

definition amount_ratio :: "real \<Rightarrow> real \<Rightarrow> real" where
  "amount_ratio claimed avg_claim_amount =
     (if avg_claim_amount > 0 then fdiv claimed avg_claim_amount else 1.0)"

text \<open>
  The scenario of the specification: a claim of 18450 against an organisation
  average of 3000, flagged as a duplicate and as a rapid readmission.
\<close>

definition scenario_features :: claim_features where
  "scenario_features =
     default_features\<lparr>claimed_amount := 18450,
                      amount_vs_org_avg := amount_ratio 18450 3000,
                      duplicate_claim_flag := 1,
                      rapid_readmission := 1\<rparr>"

subsection \<open>The duplicate check of the feature pipeline\<close>

text \<open>
  A claim is a dictionary, a row of the table \<^verbatim>\<open>claims\<close>. A key of a dictionary
  is absent, holds null (\<^verbatim>\<open>None\<close>) or holds a value; the keys the modelled code
  reads are the fields here. The row has an \<^verbatim>\<open>id\<close>: it was selected by it. Times
  are seconds on the UTC clock. The table is a list of rows; a store that cannot be
  reached (the query raises) is \<open>None\<close>.
\<close>

datatype 'a field = Absent | Null | Val 'a

record claim =
  c_id :: string
  c_patient_id :: "string field"
  c_procedure_codes :: "string list field"
  c_diagnosis_codes :: "string list field"
  c_status :: "string field"
  c_created_at :: int

text \<open>
  Python's truth value of a list or string (empty is false) and of
  \<^verbatim>\<open>d.get(k)\<close> (absent, null and empty are false); \<open>has_value\<close> says that
  the key holds a value.
\<close>

definition nonempty :: "'a list \<Rightarrow> bool" where
  "nonempty xs = (xs \<noteq> [])"

definition has_value :: "'a field \<Rightarrow> bool" where
  "has_value v = (case v of Val x \<Rightarrow> True | _ \<Rightarrow> False)"

definition truthy :: "'a list field \<Rightarrow> bool" where
  "truthy v = (case v of Val x \<Rightarrow> nonempty x | _ \<Rightarrow> False)"

definition days :: "int \<Rightarrow> int" where
  "days n = n * 86400"

definition check_duplicate :: "int \<Rightarrow> claim list option \<Rightarrow> claim \<Rightarrow> bool" where
  "check_duplicate utcnow db claim =
     (if \<not> truthy (c_patient_id claim) then False
      else if \<not> truthy (c_procedure_codes claim) then False
      else case db of
             None \<Rightarrow> False
           | Some claims \<Rightarrow>
               (let cutoff = utcnow - days 90;
                    dupes = filter (\<lambda>row. c_patient_id row = c_patient_id claim \<and>
                                          c_id row \<noteq> c_id claim \<and>
                                          c_created_at row \<ge> cutoff) claims
                in length dupes > 0))"

text \<open>The field of \<^verbatim>\<open>build_features\<close>: \<^verbatim>\<open>int(self._check_duplicate(claim))\<close>.\<close>

definition build_duplicate_claim_flag :: "int \<Rightarrow> claim list option \<Rightarrow> claim \<Rightarrow> int" where
  "build_duplicate_claim_flag utcnow db claim =
     (if check_duplicate utcnow db claim then 1 else 0)"

text \<open>
  The flag in the words of the specification: some other claim of the same patient,
  with overlapping procedure codes, within the trailing 90 days.
\<close>

definition codes_of :: "claim \<Rightarrow> string list" where
  "codes_of c = (case c_procedure_codes c of Val cs \<Rightarrow> cs | _ \<Rightarrow> [])"

definition spec_duplicate :: "int \<Rightarrow> claim list \<Rightarrow> claim \<Rightarrow> bool" where
  "spec_duplicate utcnow claims claim =
     list_ex (\<lambda>other. c_id other \<noteq> c_id claim \<and>
                      has_value (c_patient_id claim) \<and>
                      c_patient_id other = c_patient_id claim \<and>
                      set (codes_of other) \<inter> set (codes_of claim) \<noteq> {} \<and>
                      utcnow - days 90 \<le> c_created_at other) claims"

text \<open>
  Two claims of one patient, a day apart, with different procedure codes (an office
  visit and a knee replacement).
\<close>

definition visit_claim :: claim where
  "visit_claim =
     \<lparr>c_id = ''claim-1'', c_patient_id = Val ''patient-1'',
      c_procedure_codes = Val [''99213''], c_diagnosis_codes = Val [''J45''],
      c_status = Val ''draft'', c_created_at = days 100\<rparr>"

definition surgery_claim :: claim where
  "surgery_claim =
     \<lparr>c_id = ''claim-2'', c_patient_id = Val ''patient-1'',
      c_procedure_codes = Val [''27447''], c_diagnosis_codes = Val [''M17''],
      c_status = Val ''pending_review'', c_created_at = days 99\<rparr>"

subsection \<open>The fact extractor\<close>

text \<open>
  The library functions the extractor and the orchestrator call are parameters: the
  four compiled patterns' \<^verbatim>\<open>findall\<close>, the two \<^verbatim>\<open>re.search\<close> tests of
  the authorization indicators, \<^verbatim>\<open>str.upper\<close> and \<^verbatim>\<open>str.strip\<close>.
\<close>

record library =
  ICD_PATTERN_findall :: "string \<Rightarrow> string list"
  CPT_PATTERN_findall :: "string \<Rightarrow> string list"
  NPI_PATTERN_findall :: "string \<Rightarrow> string list"
  DOCTOR_PATTERN_findall :: "string \<Rightarrow> string list"
  prior_auth_search :: "string \<Rightarrow> bool"
  auth_reference_search :: "string \<Rightarrow> bool"
  str_upper :: "string \<Rightarrow> string"
  str_strip :: "string \<Rightarrow> string"

record extracted_facts =
  diagnosis_codes :: "string list"
  procedure_codes :: "string list"
  physician_identifiers :: "string list"
  authorization_indicators :: "string list"
  matched_policies :: "string list"
  detected_risks :: "string list"
  is_consistent :: bool
  facts_confidence :: real
  summary :: string

text \<open>
  The field \<^verbatim>\<open>confidence\<close> of \<^verbatim>\<open>ExtractedFacts\<close> is \<open>facts_confidence\<close>
  here: the ensemble result has a field \<open>confidence\<close> already.

  \<^verbatim>\<open>sorted(set(xs))\<close>: the distinct elements in ascending order.
\<close>

definition sorted_set :: "string list \<Rightarrow> string list" where
  "sorted_set xs = sort (remdups xs)"

text \<open>\<^verbatim>\<open>str(n)\<close> for a length, as the f-string of the summary prints it.\<close>

fun str_of_nat :: "nat \<Rightarrow> string" where
  "str_of_nat n =
     (if n < 10 then [char_of (48 + n)]
      else str_of_nat (n div 10) @ [char_of (48 + n mod 10)])"

definition extract_authorization_indicators :: "library \<Rightarrow> string \<Rightarrow> string list" where
  "extract_authorization_indicators lib txt =
     (let matches = [];
          matches = (if prior_auth_search lib txt
                     then matches @ [''PRIOR_AUTH_DECLARED''] else matches);
          matches = (if auth_reference_search lib txt
                     then matches @ [''AUTH_REFERENCE_PRESENT''] else matches)
      in sorted_set matches)"

definition extract_physician_identifiers :: "library \<Rightarrow> string \<Rightarrow> string list" where
  "extract_physician_identifiers lib txt =
     (let physician_ids = map (\<lambda>npi. ''NPI:'' @ npi) (NPI_PATTERN_findall lib txt);
          physician_names = map (\<lambda>name. ''PROVIDER:'' @ name) (DOCTOR_PATTERN_findall lib txt)
      in sorted_set (physician_ids @ physician_names))"

definition build_policy_and_risk_signals ::
  "string list \<Rightarrow> string list \<Rightarrow> string list \<Rightarrow> string list
     \<Rightarrow> string list \<times> string list \<times> bool" where
  "build_policy_and_risk_signals diag_codes proc_codes phys_ids auth_inds =
     (let policies = []; risks = [];
          (policies, risks) =
            (if nonempty diag_codes \<and> nonempty proc_codes
             then (policies @ [''DIAGNOSIS_PROCEDURE_LINKED''], risks)
             else (policies, risks @ [''DIAGNOSIS_PROCEDURE_MISMATCH'']));
          (policies, risks) =
            (if nonempty auth_inds
             then (policies @ [''PRIOR_AUTH_MATCHED''], risks)
             else (policies, risks @ [''MISSING_AUTHORIZATION'']));
          (policies, risks) =
            (if nonempty phys_ids
             then (policies @ [''PROVIDER_IDENTIFIER_PRESENT''], risks)
             else (policies, risks @ [''MISSING_PROVIDER_IDENTIFIER'']));
          risks =
            (if \<not> nonempty diag_codes \<and> \<not> nonempty proc_codes
             then risks @ [''NO_BILLABLE_CODE_EXTRACTED''] else risks);
          consistent =
            (''DIAGNOSIS_PROCEDURE_LINKED'' \<in> set policies \<and>
             ''PRIOR_AUTH_MATCHED'' \<in> set policies \<and>
             ''PROVIDER_IDENTIFIER_PRESENT'' \<in> set policies)
      in (sorted_set policies, sorted_set risks, consistent))"

definition extract_facts :: "library \<Rightarrow> string \<Rightarrow> extracted_facts" where
  "extract_facts lib txt =
     (if \<not> nonempty txt then
        \<lparr>diagnosis_codes = [], procedure_codes = [], physician_identifiers = [],
         authorization_indicators = [], matched_policies = [],
         detected_risks = [''NO_TEXT_AVAILABLE''], is_consistent = False,
         facts_confidence = 0.0, summary = ''No text provided''\<rparr>
      else
        (let diag_codes = sorted_set (map (str_upper lib) (ICD_PATTERN_findall lib txt));
             proc_codes = sorted_set (CPT_PATTERN_findall lib txt);
             phys_ids = extract_physician_identifiers lib txt;
             auth_inds = extract_authorization_indicators lib txt;
             (policies, risks, consistent) =
               build_policy_and_risk_signals diag_codes proc_codes phys_ids auth_inds;
             conf = (if consistent then 0.95
                     else if nonempty diag_codes \<or> nonempty proc_codes then 0.72 else 0.4);
             summ = ''Extracted '' @ str_of_nat (length diag_codes) @ '' diagnosis code(s), ''
                    @ str_of_nat (length proc_codes) @ '' procedure code(s), ''
                    @ str_of_nat (length phys_ids) @ '' provider identifier(s).''
         in \<lparr>diagnosis_codes = diag_codes, procedure_codes = proc_codes,
             physician_identifiers = phys_ids, authorization_indicators = auth_inds,
             matched_policies = policies, detected_risks = risks,
             is_consistent = consistent, facts_confidence = conf, summary = summ\<rparr>))"

subsection \<open>The revalidation orchestrator\<close>

definition map_recommendation_to_status :: "string \<Rightarrow> string" where
  "map_recommendation_to_status rec =
     (case map_of [(''AUTO_APPROVE'', ''pending_review''),
                   (''APPROVE_WITH_REVIEW'', ''pending_review''),
                   (''COMPLIANCE_REVIEW_REQUIRED'', ''compliance_review''),
                   (''HIGH_RISK_HOLD'', ''compliance_review'')] rec of
        Some st \<Rightarrow> st
      | None \<Rightarrow> ''pending_review'')"

definition build_reviewer_suggestion :: "string \<Rightarrow> string list \<Rightarrow> string" where
  "build_reviewer_suggestion rec risks =
     (if rec = ''AUTO_APPROVE'' then
        ''Low-risk claim profile. Approve unless manual discrepancy is identified.''
      else if ''MISSING_AUTHORIZATION'' \<in> set risks then
        ''Authorization evidence missing. Request prior authorization document before approval.''
      else if rec = ''HIGH_RISK_HOLD'' then
        ''High-risk hold recommended. Escalate to compliance specialist for manual review.''
      else ''Proceed with targeted compliance review on extracted risk indicators.'')"

text \<open>
  A document row: its OCR text, and the \<^verbatim>\<open>str\<close> of its OCR data when that is
  a dictionary (\<open>None\<close> when it is not).
\<close>

record document =
  ocr_text :: "string option"
  ocr_data_str :: "string option"

fun join :: "string \<Rightarrow> string list \<Rightarrow> string" where
  "join sep [] = []"
| "join sep [x] = x"
| "join sep (x # y # ys) = x @ sep @ join sep (y # ys)"

text \<open>Lines 71 to 80 of \<^verbatim>\<open>revalidate_claim\<close>: the text of all documents.\<close>

definition combined_text_parts :: "document list \<Rightarrow> string list" where
  "combined_text_parts docs =
     concat (map (\<lambda>doc.
        (case ocr_text doc of None \<Rightarrow> [] | Some t \<Rightarrow> if nonempty t then [t] else []) @
        (case ocr_data_str doc of None \<Rightarrow> [] | Some d \<Rightarrow> [d])) docs)"

definition combined_text :: "library \<Rightarrow> document list \<Rightarrow> string" where
  "combined_text lib docs =
     str_strip lib (join [CHR 0x0A, CHR 0x0A] (combined_text_parts docs))"

text \<open>
  The reviewer guidance in the words of the specification: a missing authorization
  comes first, then AUTO_APPROVE, then HIGH_RISK_HOLD, then the targeted review.
\<close>

definition spec_reviewer_suggestion :: "string \<Rightarrow> string list \<Rightarrow> string" where
  "spec_reviewer_suggestion rec risks =
     (if ''MISSING_AUTHORIZATION'' \<in> set risks then
        ''Authorization evidence missing. Request prior authorization document before approval.''
      else if rec = ''AUTO_APPROVE'' then
        ''Low-risk claim profile. Approve unless manual discrepancy is identified.''
      else if rec = ''HIGH_RISK_HOLD'' then
        ''High-risk hold recommended. Escalate to compliance specialist for manual review.''
      else ''Proceed with targeted compliance review on extracted risk indicators.'')"

text \<open>
  What a revalidation cycle writes to the claim (\<^verbatim>\<open>update_data\<close>, and the base
  fields \<^verbatim>\<open>basic_update_data\<close> written instead when the extended columns are
  missing), what it returns, and whether it queued the follow-up analysis. A code
  list written as null is \<open>None\<close>. The violation flags, the explanation payload, the
  copies of the extracted facts, the timestamps, the result history record and the
  audit entry are left out: no decision field is computed from them.
\<close>

record update_data =
  upd_diagnosis_codes :: "string list option"
  upd_procedure_codes :: "string list option"
  upd_trust_score :: real
  upd_ai_recommendation :: string
  upd_status :: string
  upd_detected_risks :: "string list"
  upd_reviewer_suggestion :: string
  upd_workflow_stage :: string
  upd_auto_approval_eligible :: bool

record basic_update_data =
  basic_diagnosis_codes :: "string list option"
  basic_procedure_codes :: "string list option"
  basic_trust_score :: real
  basic_ai_recommendation :: string
  basic_status :: string

record response =
  res_status :: string
  res_workflow_stage :: string
  res_claim_status :: string
  res_auto_approval_eligible :: bool
  res_reviewer_suggestion :: string
  res_detected_risks :: "string list"
  res_recommendation :: string
  res_trust_score :: real

record outcome =
  written :: update_data
  written_basic :: basic_update_data
  returned :: response
  queued :: bool

text \<open>
  A cycle that does not complete either returns an error response (the two early
  returns) or raises.
\<close>

datatype failure = Error_response string | Raised

text \<open>
  \<^verbatim>\<open>build_features\<close> takes \<^verbatim>\<open>len\<close> of the claim's two code lists, read with
  \<^verbatim>\<open>claim.get(key, [])\<close>: on a list that is null it raises \<^verbatim>\<open>TypeError\<close>.
\<close>

definition build_features_raises :: "claim \<Rightarrow> bool" where
  "build_features_raises claim =
     (c_procedure_codes claim = Null \<or> c_diagnosis_codes claim = Null)"

text \<open>\<^verbatim>\<open>claim.get(key, [])\<close> as the update writes it: null stays null.\<close>

definition get_or_empty :: "string list field \<Rightarrow> string list option" where
  "get_or_empty v = (case v of Absent \<Rightarrow> Some [] | Null \<Rightarrow> None | Val cs \<Rightarrow> Some cs)"

text \<open>
  \<^verbatim>\<open>revalidate_claim\<close>. Its arguments are what the two queries return (the claim
  row, if any, and the claim's documents), \<open>run_analysis\<close>, which stands for
  \<^verbatim>\<open>engine.analyze(feature_engineer.build_features(claim, combined_ocr_data), combined_text)\<close>
  and is \<open>None\<close> when that raises (its result depends on the store, the clock and the
  loaded models), and \<open>queue_up\<close>, which says whether the task queue accepts the
  follow-up task \<^verbatim>\<open>analyze_claim_async\<close>; a queue that raises is logged and ignored.
\<close>

definition revalidate_claim ::
  "library \<Rightarrow> (claim \<Rightarrow> document list \<Rightarrow> string \<Rightarrow> ensemble_result option) \<Rightarrow> bool
     \<Rightarrow> claim option \<Rightarrow> document list \<Rightarrow> failure + outcome" where
  "revalidate_claim lib run_analysis queue_up claim_row docs =
     (case claim_row of
        None \<Rightarrow> Inl (Error_response ''Claim not found'')
      | Some claim \<Rightarrow>
          if \<not> nonempty docs then Inl (Error_response ''No documents found for claim'')
          else
            (let txt = combined_text lib docs;
                 facts = extract_facts lib txt
             in case (if build_features_raises claim then None
                      else run_analysis claim docs txt) of
                  None \<Rightarrow> Inl Raised
                | Some ensemble \<Rightarrow>
            (let workflow_stage =
                   (if recommendation ensemble = ''AUTO_APPROVE''
                    then ''auto_approval_review'' else ''compliance_review'');
                 auto_approval_eligible =
                   (recommendation ensemble = ''AUTO_APPROVE'' \<and>
                    ''MISSING_AUTHORIZATION'' \<notin> set (detected_risks facts) \<and>
                    ''MISSING_PROVIDER_IDENTIFIER'' \<notin> set (detected_risks facts));
                 reviewer_suggestion =
                   build_reviewer_suggestion (recommendation ensemble) (detected_risks facts);
                 next_status = map_recommendation_to_status (recommendation ensemble);
                 (next_status, workflow_stage) =
                   (if c_status claim = Val ''draft''
                    then (''draft'', ''pre_submission_revalidation'')
                    else (next_status, workflow_stage));
                 upd =
                   \<lparr>upd_diagnosis_codes =
                      (if nonempty (diagnosis_codes facts) then Some (diagnosis_codes facts)
                       else get_or_empty (c_diagnosis_codes claim)),
                    upd_procedure_codes =
                      (if nonempty (procedure_codes facts) then Some (procedure_codes facts)
                       else get_or_empty (c_procedure_codes claim)),
                    upd_trust_score = trust_score ensemble,
                    upd_ai_recommendation = recommendation ensemble,
                    upd_status = next_status,
                    upd_detected_risks = detected_risks facts,
                    upd_reviewer_suggestion = reviewer_suggestion,
                    upd_workflow_stage = workflow_stage,
                    upd_auto_approval_eligible = auto_approval_eligible\<rparr>;
                 basic =
                   \<lparr>basic_diagnosis_codes = upd_diagnosis_codes upd,
                    basic_procedure_codes = upd_procedure_codes upd,
                    basic_trust_score = upd_trust_score upd,
                    basic_ai_recommendation = upd_ai_recommendation upd,
                    basic_status = upd_status upd\<rparr>
             in Inr \<lparr>written = upd,
                     written_basic = basic,
                     returned =
                       \<lparr>res_status = ''revalidated'',
                        res_workflow_stage = workflow_stage,
                        res_claim_status = next_status,
                        res_auto_approval_eligible = auto_approval_eligible,
                        res_reviewer_suggestion = reviewer_suggestion,
                        res_detected_risks = detected_risks facts,
                        res_recommendation = recommendation ensemble,
                        res_trust_score = trust_score ensemble\<rparr>,
                     queued = queue_up\<rparr>)))"

subsection \<open>The queued analysis task\<close>

text \<open>
  \<^verbatim>\<open>analyze_claim_async\<close>, run by the task queue two seconds after a completed
  revalidation. The model gives the statuses one run of the task writes to the claim,
  in order: nothing when the claim is not found; otherwise \<^verbatim>\<open>ai_analyzing\<close>,
  and then the status its own table maps the recommendation to, or
  \<^verbatim>\<open>pending_review\<close> from the exception handler when the analysis raises.
  \<open>task_analysis\<close> stands for the task's steps 2 to 5 (its document query, feature
  engineering, text analysis and ensemble scoring) and is \<open>None\<close> when they raise.
  The task never reads the claim's current status.
\<close>

definition task_next_status :: "string \<Rightarrow> string" where
  "task_next_status rec =
     (case map_of [(''AUTO_APPROVE'', ''pending_review''),
                   (''APPROVE_WITH_REVIEW'', ''pending_review''),
                   (''COMPLIANCE_REVIEW_REQUIRED'', ''compliance_review''),
                   (''HIGH_RISK_HOLD'', ''compliance_review'')] rec of
        Some st \<Rightarrow> st
      | None \<Rightarrow> ''pending_review'')"

definition analyze_claim_async ::
  "(claim \<Rightarrow> ensemble_result option) \<Rightarrow> claim option \<Rightarrow> string list" where
  "analyze_claim_async task_analysis claim_row =
     (case claim_row of
        None \<Rightarrow> []
      | Some claim \<Rightarrow>
          [''ai_analyzing''] @
          (case task_analysis claim of
             None \<Rightarrow> [''pending_review'']
           | Some result \<Rightarrow> [task_next_status (recommendation result)]))"

text \<open>
  The claim row after the update of a revalidation, and the statuses a whole cycle
  writes: the one of \<^verbatim>\<open>revalidate_claim\<close>, then those of the task it queued.
  The last status written is the claim's status afterwards.
\<close>

definition apply_update :: "update_data \<Rightarrow> claim \<Rightarrow> claim" where
  "apply_update upd claim =
     claim\<lparr>c_status := Val (upd_status upd),
           c_diagnosis_codes :=
             (case upd_diagnosis_codes upd of None \<Rightarrow> Null | Some cs \<Rightarrow> Val cs),
           c_procedure_codes :=
             (case upd_procedure_codes upd of None \<Rightarrow> Null | Some cs \<Rightarrow> Val cs)\<rparr>"

definition cycle_status_writes ::
  "library \<Rightarrow> (claim \<Rightarrow> document list \<Rightarrow> string \<Rightarrow> ensemble_result option) \<Rightarrow> bool
     \<Rightarrow> (claim \<Rightarrow> ensemble_result option) \<Rightarrow> claim \<Rightarrow> document list \<Rightarrow> string list" where
  "cycle_status_writes lib run_analysis queue_up task_analysis claim docs =
     (case revalidate_claim lib run_analysis queue_up (Some claim) docs of
        Inl e \<Rightarrow> []
      | Inr out \<Rightarrow>
          upd_status (written out) #
          (if queued out
           then analyze_claim_async task_analysis (Some (apply_update (written out) claim))
           else []))"

definition status_after :: "claim \<Rightarrow> string list \<Rightarrow> string field" where
  "status_after claim writes = (if writes = [] then c_status claim else Val (last writes))"

subsection \<open>Concrete inputs\<close>

text \<open>
  Two documents for concrete runs, each with the library's results on its text: on
  \<^verbatim>\<open>x\<close> the patterns find nothing; on the referral note they find a diagnosis
  code, a procedure code, a provider number and a declared prior authorization.
  Neither text has surrounding white space for \<^verbatim>\<open>strip\<close> to remove.
\<close>

definition note_document :: document where
  "note_document = \<lparr>ocr_text = Some ''x'', ocr_data_str = None\<rparr>"

definition plain_library :: library where
  "plain_library =
     \<lparr>ICD_PATTERN_findall = (\<lambda>t. []), CPT_PATTERN_findall = (\<lambda>t. []),
      NPI_PATTERN_findall = (\<lambda>t. []), DOCTOR_PATTERN_findall = (\<lambda>t. []),
      prior_auth_search = (\<lambda>t. False), auth_reference_search = (\<lambda>t. False),
      str_upper = (\<lambda>t. t), str_strip = (\<lambda>t. t)\<rparr>"

definition referral_document :: document where
  "referral_document =
     \<lparr>ocr_text = Some ''Dx J45 CPT 99213 NPI 1234567890 prior auth'', ocr_data_str = None\<rparr>"

definition matching_library :: library where
  "matching_library =
     \<lparr>ICD_PATTERN_findall = (\<lambda>t. [''J45'']), CPT_PATTERN_findall = (\<lambda>t. [''99213'']),
      NPI_PATTERN_findall = (\<lambda>t. [''1234567890'']), DOCTOR_PATTERN_findall = (\<lambda>t. []),
      prior_auth_search = (\<lambda>t. True), auth_reference_search = (\<lambda>t. False),
      str_upper = (\<lambda>t. t), str_strip = (\<lambda>t. t)\<rparr>"

text \<open>
  An instance of \<^verbatim>\<open>np.var\<close> for concrete runs: the exact variance. On the score
  lists used below (\<open>0, 0, 0, 1/16\<close> and \<open>0, 1, 0, 0\<close>) every intermediate
  value of numpy's computation, in any order of summation, is a binary fraction of a
  few bits, so that \<^verbatim>\<open>np.var\<close> returns the exact variance there.
\<close>

definition sample_np_var :: "real list \<Rightarrow> real option" where
  "sample_np_var scores = (if scores = [] then None else Some (variance scores))"

text \<open>
  An analysis that approves: fraud 0, approval 1, both anomaly scores 0 and no
  document inconsistency.
\<close>

definition approving_result :: ensemble_result where
  "approving_result = analyze sample_np_var 0 1 0 0 0"

section \<open>Properties\<close>

subsection \<open>IEEE 754 rounding\<close>

lemma powi_step: "(2::real) powi (e + 1) = 2 * 2 powi e"
  by (simp add: power_int_add)

lemma ilog2_up_spec: "1 \<le> x \<Longrightarrow> 2 powi ilog2_up x \<le> x \<and> x < 2 powi (ilog2_up x + 1)"
proof (induction x rule: ilog2_up.induct)
  case (1 x)
  show ?case
  proof (cases "x < 2")
    case True
    then have "ilog2_up x = 0" by (subst ilog2_up.simps) simp
    with True "1.prems" show ?thesis by simp
  next
    case False
    then have "1 \<le> x / 2" by simp
    with "1.IH" False
    have "2 powi ilog2_up (x / 2) \<le> x / 2 \<and> x / 2 < 2 powi (ilog2_up (x / 2) + 1)"
      by simp
    moreover have "ilog2_up x = 1 + ilog2_up (x / 2)"
      using False by (subst ilog2_up.simps) simp
    ultimately show ?thesis
      using powi_step [of "ilog2_up (x / 2)"] powi_step [of "ilog2_up (x / 2) + 1"]
      by (simp add: add.commute)
  qed
qed

lemma ilog2_down_spec:
  "0 < x \<Longrightarrow> x < 1 \<Longrightarrow> 2 powi ilog2_down x \<le> x \<and> x < 2 powi (ilog2_down x + 1)"
proof (induction x rule: ilog2_down.induct)
  case (1 x)
  have eq: "ilog2_down x = ilog2_down (2 * x) - 1"
    using "1.prems" by (subst ilog2_down.simps) simp
  show ?case
  proof (cases "1 \<le> 2 * x")
    case True
    then have "ilog2_down (2 * x) = 0" by (subst ilog2_down.simps) simp
    with eq True "1.prems" show ?thesis by (simp add: power_int_minus)
  next
    case False
    with "1.IH" "1.prems"
    have "2 powi ilog2_down (2 * x) \<le> 2 * x \<and> 2 * x < 2 powi (ilog2_down (2 * x) + 1)"
      by simp
    with eq show ?thesis
      using powi_step [of "ilog2_down (2 * x) - 1"] powi_step [of "ilog2_down (2 * x)"]
      by simp
  qed
qed

lemma ilog2_spec: "0 < x \<Longrightarrow> 2 powi ilog2 x \<le> x \<and> x < 2 powi (ilog2 x + 1)"
  using ilog2_up_spec [of x] ilog2_down_spec [of x] by (simp add: ilog2_def)

lemma ilog2_unique:
  assumes "2 powi e \<le> x" "x < 2 powi (e + 1)"
  shows "ilog2 x = e"
proof -
  have "0 < (2::real) powi e" by simp
  with assms(1) have pos: "0 < x" by linarith
  note s = ilog2_spec [OF pos]
  have "\<not> ilog2 x < e"
  proof
    assume "ilog2 x < e"
    then have "(2::real) powi (ilog2 x + 1) \<le> 2 powi e"
      by (intro power_int_increasing) auto
    with s assms show False by linarith
  qed
  moreover have "\<not> e < ilog2 x"
  proof
    assume "e < ilog2 x"
    then have "(2::real) powi (e + 1) \<le> 2 powi ilog2 x"
      by (intro power_int_increasing) auto
    with s assms show False by linarith
  qed
  ultimately show ?thesis by linarith
qed

lemma ilog2_mono:
  assumes "0 < x" "x \<le> y"
  shows "ilog2 x \<le> ilog2 y"
proof (rule ccontr)
  assume "\<not> ilog2 x \<le> ilog2 y"
  then have "(2::real) powi (ilog2 y + 1) \<le> 2 powi ilog2 x"
    by (intro power_int_increasing) auto
  with ilog2_spec [of x] ilog2_spec [of y] assms show False by linarith
qed


lemma round_half_even_of_int: "round_half_even (of_int k) = k"
  by (simp add: round_half_even_def)

lemma round_half_even_mono:
  assumes "x \<le> y"
  shows "round_half_even x \<le> round_half_even y"
proof (cases "\<lfloor>x\<rfloor> = \<lfloor>y\<rfloor>")
  case True
  with assms show ?thesis
    by (auto simp: round_half_even_def Let_def)
next
  case False
  with assms have "\<lfloor>x\<rfloor> + 1 \<le> \<lfloor>y\<rfloor>"
    using floor_mono [of x y] by linarith
  moreover have "round_half_even x \<le> \<lfloor>x\<rfloor> + 1"
    by (simp add: round_half_even_def Let_def)
  moreover have "\<lfloor>y\<rfloor> \<le> round_half_even y"
    by (simp add: round_half_even_def Let_def)
  ultimately show ?thesis by linarith
qed

lemma round_half_even_minus: "round_half_even (- x) = - round_half_even x"
proof (cases "x = of_int \<lfloor>x\<rfloor>")
  case True
  then have "round_half_even x = \<lfloor>x\<rfloor>"
    using round_half_even_of_int [of "\<lfloor>x\<rfloor>"] by simp
  moreover have "round_half_even (- x) = - \<lfloor>x\<rfloor>"
    using round_half_even_of_int [of "- \<lfloor>x\<rfloor>"] True by simp
  ultimately show ?thesis by simp
next
  case False
  then have lt: "of_int \<lfloor>x\<rfloor> < x" by linarith
  have fl: "\<lfloor>- x\<rfloor> = - \<lfloor>x\<rfloor> - 1"
    using lt by linarith
  show ?thesis
    unfolding round_half_even_def Let_def fl using lt
    by (auto simp: algebra_simps)
qed

lemma round_half_even_near: "\<bar>of_int (round_half_even x) - x\<bar> \<le> 1 / 2"
  by (auto simp: round_half_even_def Let_def)

lemma round_grid_mono: "x \<le> y \<Longrightarrow> round_grid e x \<le> round_grid e y"
  by (simp add: round_grid_def round_half_even_mono divide_right_mono mult_right_mono)

lemma round_grid_minus: "round_grid e (- x) = - round_grid e x"
  by (simp add: round_grid_def round_half_even_minus)

lemma round_grid_fix:
  assumes "e \<le> b"
  shows "round_grid e (of_int k * 2 powi b) = of_int k * 2 powi b"
proof -
  have "(2::real) powi b = 2 powi (b - e) * 2 powi e"
    by (simp add: power_int_add [symmetric])
  moreover have "(2::real) powi (b - e) = of_int (2 ^ nat (b - e))"
    using assms by (simp add: power_int_def)
  ultimately have "of_int k * (2::real) powi b / 2 powi e = of_int (k * 2 ^ nat (b - e))"
    by simp
  then have "round_half_even (of_int k * (2::real) powi b / 2 powi e) = k * 2 ^ nat (b - e)"
    by (simp only: round_half_even_of_int)
  then show ?thesis
    using \<open>(2::real) powi b = 2 powi (b - e) * 2 powi e\<close>
      \<open>(2::real) powi (b - e) = of_int (2 ^ nat (b - e))\<close>
    by (simp add: round_grid_def)
qed

lemma round_to_0: "round_to p emin 0 = 0"
  by (simp add: round_to_def round_grid_def round_half_even_def)

lemma round_to_minus: "round_to p emin (- x) = - round_to p emin x"
  by (simp add: round_to_def round_grid_minus)

lemma round_to_mono_pos:
  assumes "0 < x" "x \<le> y" "0 < p"
  shows "round_to p emin x \<le> round_to p emin y"
proof -
  let ?ex = "max (ilog2 x) emin - (int p - 1)"
  let ?ey = "max (ilog2 y) emin - (int p - 1)"
  from assms have y: "0 < y" by simp
  have le: "ilog2 x \<le> ilog2 y" using assms by (intro ilog2_mono)
  have rx: "round_to p emin x = round_grid ?ex x" using assms by (simp add: round_to_def)
  have ry: "round_to p emin y = round_grid ?ey y" using y by (simp add: round_to_def)
  show ?thesis
  proof (cases "?ex = ?ey")
    case True
    with rx ry assms show ?thesis by (simp add: round_grid_mono)
  next
    case False
    with le have lt: "ilog2 x < ilog2 y" and big: "emin < ilog2 y" by (auto simp: max_def split: if_splits)
    let ?B = "(2::real) powi ilog2 y"
    have "(2::real) powi (ilog2 x + 1) \<le> ?B"
      using lt by (intro power_int_increasing) auto
    with ilog2_spec [OF assms(1)] have xB: "x \<le> ?B" by linarith
    have By: "?B \<le> y" using ilog2_spec [OF y] by simp
    have ey: "?ey \<le> ilog2 y" using big assms(3) by (simp add: max_def)
    have ex: "?ex \<le> ilog2 y" using lt big assms(3) by (simp add: max_def)
    have "round_grid ?ex x \<le> round_grid ?ex ?B" using xB by (rule round_grid_mono)
    also have "round_grid ?ex ?B = ?B" using round_grid_fix [OF ex, of 1] by simp
    also have "?B = round_grid ?ey ?B" using round_grid_fix [OF ey, of 1] by simp
    also have "\<dots> \<le> round_grid ?ey y" using By by (rule round_grid_mono)
    finally show ?thesis using rx ry by simp
  qed
qed

lemma round_to_nonneg:
  assumes "0 \<le> x"
  shows "0 \<le> round_to p emin x"
proof -
  have "round_grid e 0 \<le> round_grid e x" for e using assms by (rule round_grid_mono)
  then show ?thesis by (simp add: round_to_def round_grid_def round_half_even_def)
qed

lemma round_to_mono:
  assumes "x \<le> y" "0 < p"
  shows "round_to p emin x \<le> round_to p emin y"
proof -
  consider "0 < x" | "x \<le> 0" "0 \<le> y" | "y < 0" by linarith
  then show ?thesis
  proof cases
    case 1
    with assms show ?thesis by (intro round_to_mono_pos)
  next
    case 2
    have "0 \<le> round_to p emin (- x)" using 2 by (intro round_to_nonneg) simp
    then have "round_to p emin x \<le> 0" by (simp add: round_to_minus)
    also have "0 \<le> round_to p emin y" using 2 by (intro round_to_nonneg)
    finally show ?thesis .
  next
    case 3
    have "round_to p emin (- y) \<le> round_to p emin (- x)"
      using 3 assms by (intro round_to_mono_pos) auto
    then show ?thesis by (simp add: round_to_minus)
  qed
qed


lemmas ieee_eval = dbl_def f32_def round_to_def round_grid_def ilog2_def ilog2_up.simps
  ilog2_down.simps round_half_even_def fadd_def fsub_def fmul_def fdiv_def

lemma dbl_mono: "x \<le> y \<Longrightarrow> dbl x \<le> dbl y"
  by (simp add: dbl_def round_to_mono)

lemma f32_mono: "x \<le> y \<Longrightarrow> f32 x \<le> f32 y"
  by (simp add: f32_def round_to_mono)

lemma dbl_0: "dbl 0 = 0" by (simp add: dbl_def round_to_0)
lemma dbl_1: "dbl 1 = 1" by (simp add: ieee_eval)
lemma dbl_100: "dbl 100 = 100" by (simp add: ieee_eval)

lemma dbl_nonneg: "0 \<le> x \<Longrightarrow> 0 \<le> dbl x"
  using dbl_mono [of 0 x] by (simp add: dbl_0)

lemma fadd_mono: "a \<le> a' \<Longrightarrow> b \<le> b' \<Longrightarrow> fadd a b \<le> fadd a' b'"
  by (simp add: fadd_def dbl_mono add_mono)

lemma fsub_mono: "a \<le> a' \<Longrightarrow> b' \<le> b \<Longrightarrow> fsub a b \<le> fsub a' b'"
  by (simp add: fsub_def dbl_mono diff_mono)

lemma fmul_mono: "0 \<le> w \<Longrightarrow> a \<le> a' \<Longrightarrow> fmul w a \<le> fmul w a'"
  by (simp add: fmul_def dbl_mono mult_left_mono)

lemma fmul_mono_right: "0 \<le> c \<Longrightarrow> a \<le> a' \<Longrightarrow> fmul a c \<le> fmul a' c"
  by (simp add: fmul_def dbl_mono mult_right_mono)

lemma np_clip_mono: "x \<le> y \<Longrightarrow> np_clip x lo hi \<le> np_clip y lo hi"
  by (auto simp: np_clip_def min_def max_def)

lemma py_round_mono: "x \<le> y \<Longrightarrow> py_round x n \<le> py_round y n"
  unfolding py_round_def
  by (intro dbl_mono divide_right_mono) (simp_all add: round_half_even_mono mult_right_mono)

lemma weights_dbl:
  "dbl (WEIGHTS xgboost) = 5404319552844595 / 2 ^ 54"
  "dbl (WEIGHTS rf) = 1 / 4"
  "dbl (WEIGHTS isolation) = 3602879701896397 / 2 ^ 54"
  "dbl (WEIGHTS autoencoder) = 5404319552844595 / 2 ^ 55"
  "dbl (WEIGHTS nlp) = 3602879701896397 / 2 ^ 55"
  by (simp_all add: ieee_eval)


lemma round_grid_error: "\<bar>round_grid e x - x\<bar> \<le> 2 powi e / 2"
proof -
  let ?u = "(2::real) powi e"
  have u: "0 < ?u" by simp
  have "round_grid e x - x = (of_int (round_half_even (x / ?u)) - x / ?u) * ?u"
    using u by (simp add: round_grid_def field_simps)
  then have "\<bar>round_grid e x - x\<bar> = \<bar>of_int (round_half_even (x / ?u)) - x / ?u\<bar> * ?u"
    using u by (simp add: abs_mult)
  also have "\<dots> \<le> (1 / 2) * ?u"
    using u round_half_even_near [of "x / ?u"] by (intro mult_right_mono) simp_all
  finally show ?thesis by simp
qed

lemma dbl_error:
  assumes "\<bar>x\<bar> < 2 powi (b + 1)" "- 1022 \<le> b"
  shows "\<bar>dbl x - x\<bar> \<le> 2 powi (b - 53)"
proof (cases "x = 0")
  case True
  then show ?thesis by (simp add: dbl_0)
next
  case False
  then have pos: "0 < \<bar>x\<bar>" by simp
  have "ilog2 \<bar>x\<bar> \<le> b"
  proof (rule ccontr)
    assume "\<not> ilog2 \<bar>x\<bar> \<le> b"
    then have "(2::real) powi (b + 1) \<le> 2 powi ilog2 \<bar>x\<bar>"
      by (intro power_int_increasing) auto
    with ilog2_spec [OF pos] assms(1) show False by linarith
  qed
  then have e: "max (ilog2 \<bar>x\<bar>) (- 1022) - (int 53 - 1) \<le> b - 52"
    using assms(2) by simp
  let ?e = "max (ilog2 \<bar>x\<bar>) (- 1022) - (int 53 - 1)"
  have "\<bar>dbl x - x\<bar> \<le> 2 powi ?e / 2"
    unfolding dbl_def round_to_def by (rule round_grid_error)
  also have "\<dots> \<le> 2 powi (b - 52) / 2"
    using e by (intro divide_right_mono power_int_increasing) auto
  also have "\<dots> = 2 powi (b - 53)"
    using powi_step [of "b - 53"] by simp
  finally show ?thesis .
qed

lemma dbl_error_1: "\<bar>x\<bar> < 1 \<Longrightarrow> \<bar>dbl x - x\<bar> \<le> 1 / 2 ^ 54"
  using dbl_error [of x "- 1"] by (simp add: power_int_minus inverse_eq_divide)

lemma dbl_error_2: "\<bar>x\<bar> < 2 \<Longrightarrow> \<bar>dbl x - x\<bar> \<le> 1 / 2 ^ 53"
  using dbl_error [of x 0] by (simp add: power_int_minus inverse_eq_divide)

lemma dbl_error_128: "\<bar>x\<bar> < 128 \<Longrightarrow> \<bar>dbl x - x\<bar> \<le> 1 / 2 ^ 47"
  using dbl_error [of x 6] by (simp add: power_int_minus inverse_eq_divide)


lemma abs_chain:
  fixes x y z :: real
  shows "\<bar>x - y\<bar> \<le> d1 \<Longrightarrow> \<bar>y - z\<bar> \<le> d2 \<Longrightarrow> d1 + d2 \<le> d \<Longrightarrow> \<bar>x - z\<bar> \<le> d"
  by linarith

lemma product_error:
  fixes w a W A :: real
  assumes "0 \<le> w" "w \<le> 1" "0 \<le> A" "A \<le> 1" "\<bar>a - A\<bar> \<le> d1" "\<bar>w - W\<bar> \<le> d2"
  shows "\<bar>w * a - W * A\<bar> \<le> d1 + d2"
proof -
  have "w * a - W * A = w * (a - A) + A * (w - W)" by (simp add: algebra_simps)
  then have "\<bar>w * a - W * A\<bar> \<le> \<bar>w * (a - A)\<bar> + \<bar>A * (w - W)\<bar>" by simp
  also have "\<bar>w * (a - A)\<bar> = w * \<bar>a - A\<bar>" using assms(1) by (simp add: abs_mult)
  also have "\<bar>A * (w - W)\<bar> = A * \<bar>w - W\<bar>" using assms(3) by (simp add: abs_mult)
  also have "w * \<bar>a - A\<bar> + A * \<bar>w - W\<bar> \<le> 1 * \<bar>a - A\<bar> + 1 * \<bar>w - W\<bar>"
    using assms(2,4) by (intro add_mono mult_right_mono) simp_all
  finally show ?thesis using assms(5,6) by simp
qed

subsection \<open>The trust score\<close>

lemma fsub_unit: "0 \<le> x \<Longrightarrow> x \<le> 1 \<Longrightarrow> 0 \<le> fsub 1 x \<and> fsub 1 x \<le> 1"
  using dbl_mono [of "1 - x" 1] dbl_nonneg [of "1 - x"] by (simp add: fsub_def dbl_1)

lemma fadd_nonneg: "0 \<le> a \<Longrightarrow> 0 \<le> b \<Longrightarrow> 0 \<le> fadd a b"
  by (simp add: fadd_def dbl_nonneg)

lemma fmul_nonneg: "0 \<le> a \<Longrightarrow> 0 \<le> b \<Longrightarrow> 0 \<le> fmul a b"
  by (simp add: fmul_def dbl_nonneg)

lemma weights_nonneg: "0 \<le> dbl (WEIGHTS k)"
  by (cases k) (simp_all add: dbl_nonneg)

lemma weights_double_sum:
  "fadd (fadd (fadd (fadd (fmul (dbl (WEIGHTS xgboost)) 1) (fmul (dbl (WEIGHTS rf)) 1))
     (fmul (dbl (WEIGHTS isolation)) 1)) (fmul (dbl (WEIGHTS autoencoder)) 1))
     (fmul (dbl (WEIGHTS nlp)) 1) = 1"
  by (simp add: ieee_eval)

lemma weighted_sum_unit:
  assumes "0 \<le> a" "a \<le> 1" "0 \<le> b" "b \<le> 1" "0 \<le> c" "c \<le> 1" "0 \<le> d" "d \<le> 1"
    "0 \<le> e" "e \<le> 1"
  defines "t \<equiv> fadd (fadd (fadd (fadd
              (fmul (dbl (WEIGHTS xgboost)) a)
              (fmul (dbl (WEIGHTS rf)) b))
              (fmul (dbl (WEIGHTS isolation)) c))
              (fmul (dbl (WEIGHTS autoencoder)) d))
              (fmul (dbl (WEIGHTS nlp)) e)"
  shows "0 \<le> t \<and> t \<le> 1"
proof
  show "0 \<le> t"
    unfolding t_def using assms(1,3,5,7,9)
    by (intro fadd_nonneg fmul_nonneg weights_nonneg)
  have "t \<le> fadd (fadd (fadd (fadd (fmul (dbl (WEIGHTS xgboost)) 1) (fmul (dbl (WEIGHTS rf)) 1))
     (fmul (dbl (WEIGHTS isolation)) 1)) (fmul (dbl (WEIGHTS autoencoder)) 1))
     (fmul (dbl (WEIGHTS nlp)) 1)"
    unfolding t_def using assms(2,4,6,8,10)
    by (intro fadd_mono fmul_mono weights_nonneg)
  then show "t \<le> 1" by (simp only: weights_double_sum)
qed

lemma py_round_two_decimals:
  assumes "0 \<le> x" "x \<le> 100"
  shows "\<exists>k. 0 \<le> k \<and> k \<le> 10000 \<and> py_round x 2 = dbl (of_int k / 100) \<and>
           \<bar>of_int k / 100 - x\<bar> \<le> 1 / 200"
proof -
  let ?k = "round_half_even (x * 100)"
  have "round_half_even (of_int 0) \<le> ?k" using assms by (intro round_half_even_mono) simp
  then have k0: "0 \<le> ?k" by (simp only: round_half_even_of_int)
  have "?k \<le> round_half_even (of_int 10000)" using assms by (intro round_half_even_mono) simp
  then have k1: "?k \<le> 10000" by (simp only: round_half_even_of_int)
  have "\<bar>of_int ?k - x * 100\<bar> \<le> 1 / 2" by (rule round_half_even_near)
  then have near: "\<bar>of_int ?k / 100 - x\<bar> \<le> 1 / 200" by (simp add: field_simps abs_if split: if_splits)
  have "py_round x 2 = dbl (of_int ?k / 100)" by (simp add: py_round_def)
  with k0 k1 near show ?thesis by blast
qed

lemma weights_range: "0 \<le> WEIGHTS k \<and> WEIGHTS k \<le> 3 / 10"
  by (cases k) simp_all

lemma weights_dbl_range: "0 \<le> dbl (WEIGHTS k) \<and> dbl (WEIGHTS k) \<le> 1 / 2"
proof -
  have "dbl (WEIGHTS k) \<le> dbl (1 / 2)" using weights_range [of k] by (intro dbl_mono) simp
  moreover have "dbl (1 / 2) = 1 / 2" by (simp add: ieee_eval)
  ultimately show ?thesis using weights_nonneg [of k] by simp
qed

lemma weighted_term_error:
  assumes "0 \<le> A" "A \<le> 1" "0 \<le> a" "a \<le> 1" "\<bar>a - A\<bar> \<le> 1 / 2 ^ 53"
  shows "\<bar>fmul (dbl (WEIGHTS k)) a - WEIGHTS k * A\<bar> \<le> 1 / 2 ^ 52"
proof -
  let ?w = "dbl (WEIGHTS k)"
  note w = weights_dbl_range [of k]
  have "\<bar>WEIGHTS k\<bar> < 1" using weights_range [of k] by simp
  then have dw: "\<bar>?w - WEIGHTS k\<bar> \<le> 1 / 2 ^ 54" by (rule dbl_error_1)
  have "0 \<le> ?w * a" using w assms(3) by simp
  moreover have "?w * a \<le> (1 / 2) * 1" using w assms(3,4) by (intro mult_mono) simp_all
  ultimately have "\<bar>?w * a\<bar> < 1" by simp
  then have r: "\<bar>fmul ?w a - ?w * a\<bar> \<le> 1 / 2 ^ 54" unfolding fmul_def by (rule dbl_error_1)
  have q: "\<bar>?w * a - WEIGHTS k * A\<bar> \<le> 1 / 2 ^ 53 + 1 / 2 ^ 54"
    using w assms dw by (intro product_error) simp_all
  show ?thesis by (rule abs_chain [OF r q]) simp
qed

lemma fadd_error:
  assumes "\<bar>s - S\<bar> \<le> ds" "\<bar>p - P\<bar> \<le> dp" "\<bar>s + p\<bar> < 2"
  shows "\<bar>fadd s p - (S + P)\<bar> \<le> ds + dp + 1 / 2 ^ 53"
proof -
  have "\<bar>fadd s p - (s + p)\<bar> \<le> 1 / 2 ^ 53"
    unfolding fadd_def using assms(3) by (rule dbl_error_2)
  with assms(1,2) show ?thesis by linarith
qed

lemma fsub_unit_error:
  assumes "0 \<le> x" "x \<le> 1"
  shows "\<bar>fsub 1 x - (1 - x)\<bar> \<le> 1 / 2 ^ 53"
  unfolding fsub_def using assms by (intro dbl_error_2) simp

lemma weighted_sum_error:
  assumes "0 \<le> fraud" "fraud \<le> 1" "0 \<le> approval" "approval \<le> 1"
    "0 \<le> stat_anom" "stat_anom \<le> 1" "0 \<le> deep_anom" "deep_anom \<le> 1"
    "0 \<le> doc_inconsistency" "doc_inconsistency \<le> 1"
  shows "\<bar>fmul (fadd (fadd (fadd (fadd
                  (fmul (dbl (WEIGHTS xgboost)) (fsub 1 fraud))
                  (fmul (dbl (WEIGHTS rf)) approval))
                  (fmul (dbl (WEIGHTS isolation)) (fsub 1 stat_anom)))
                  (fmul (dbl (WEIGHTS autoencoder)) (fsub 1 deep_anom)))
                  (fmul (dbl (WEIGHTS nlp)) (fsub 1 doc_inconsistency))) 100
          - 100 * (0.30 * (1 - fraud) + 0.25 * approval + 0.20 * (1 - stat_anom)
                   + 0.15 * (1 - deep_anom) + 0.10 * (1 - doc_inconsistency))\<bar>
         \<le> 1 / 10 ^ 12"
proof -
  define p1 where "p1 = fmul (dbl (WEIGHTS xgboost)) (fsub 1 fraud)"
  define p2 where "p2 = fmul (dbl (WEIGHTS rf)) approval"
  define p3 where "p3 = fmul (dbl (WEIGHTS isolation)) (fsub 1 stat_anom)"
  define p4 where "p4 = fmul (dbl (WEIGHTS autoencoder)) (fsub 1 deep_anom)"
  define p5 where "p5 = fmul (dbl (WEIGHTS nlp)) (fsub 1 doc_inconsistency)"
  define E1 where "E1 = WEIGHTS xgboost * (1 - fraud)"
  define E2 where "E2 = WEIGHTS rf * approval"
  define E3 where "E3 = WEIGHTS isolation * (1 - stat_anom)"
  define E4 where "E4 = WEIGHTS autoencoder * (1 - deep_anom)"
  define E5 where "E5 = WEIGHTS nlp * (1 - doc_inconsistency)"
  have e1: "\<bar>p1 - E1\<bar> \<le> 1 / 2 ^ 52"
    unfolding p1_def E1_def using assms fsub_unit [of fraud] fsub_unit_error [of fraud]
    by (intro weighted_term_error) simp_all
  have e2: "\<bar>p2 - E2\<bar> \<le> 1 / 2 ^ 52"
    unfolding p2_def E2_def using assms by (intro weighted_term_error) simp_all
  have e3: "\<bar>p3 - E3\<bar> \<le> 1 / 2 ^ 52"
    unfolding p3_def E3_def using assms fsub_unit [of stat_anom] fsub_unit_error [of stat_anom]
    by (intro weighted_term_error) simp_all
  have e4: "\<bar>p4 - E4\<bar> \<le> 1 / 2 ^ 52"
    unfolding p4_def E4_def using assms fsub_unit [of deep_anom] fsub_unit_error [of deep_anom]
    by (intro weighted_term_error) simp_all
  have e5: "\<bar>p5 - E5\<bar> \<le> 1 / 2 ^ 52"
    unfolding p5_def E5_def using assms fsub_unit [of doc_inconsistency]
      fsub_unit_error [of doc_inconsistency]
    by (intro weighted_term_error) simp_all
  have E: "0 \<le> E1" "E1 \<le> 3 / 10" "0 \<le> E2" "E2 \<le> 1 / 4" "0 \<le> E3" "E3 \<le> 1 / 5"
    "0 \<le> E4" "E4 \<le> 3 / 20" "0 \<le> E5" "E5 \<le> 1 / 10"
    unfolding E1_def E2_def E3_def E4_def E5_def using assms by simp_all
  have small: "(1::real) / 2 ^ 52 \<le> 1 / 100" "(1::real) / 2 ^ 53 \<le> 1 / 100" by simp_all
  have s2: "\<bar>fadd p1 p2 - (E1 + E2)\<bar> \<le> 1 / 2 ^ 52 + 1 / 2 ^ 52 + 1 / 2 ^ 53"
  proof (rule fadd_error [OF e1 e2])
    from e1 e2 E small show "\<bar>p1 + p2\<bar> < 2" by linarith
  qed
  have s3: "\<bar>fadd (fadd p1 p2) p3 - (E1 + E2 + E3)\<bar>
      \<le> (1 / 2 ^ 52 + 1 / 2 ^ 52 + 1 / 2 ^ 53) + 1 / 2 ^ 52 + 1 / 2 ^ 53"
  proof (rule fadd_error [OF s2 e3])
    from s2 e3 E small show "\<bar>fadd p1 p2 + p3\<bar> < 2" by linarith
  qed
  have s4: "\<bar>fadd (fadd (fadd p1 p2) p3) p4 - (E1 + E2 + E3 + E4)\<bar>
      \<le> ((1 / 2 ^ 52 + 1 / 2 ^ 52 + 1 / 2 ^ 53) + 1 / 2 ^ 52 + 1 / 2 ^ 53) + 1 / 2 ^ 52 + 1 / 2 ^ 53"
  proof (rule fadd_error [OF s3 e4])
    from s3 e4 E small show "\<bar>fadd (fadd p1 p2) p3 + p4\<bar> < 2"
      by linarith
  qed
  have s5: "\<bar>fadd (fadd (fadd (fadd p1 p2) p3) p4) p5 - (E1 + E2 + E3 + E4 + E5)\<bar>
      \<le> (((1 / 2 ^ 52 + 1 / 2 ^ 52 + 1 / 2 ^ 53) + 1 / 2 ^ 52 + 1 / 2 ^ 53) + 1 / 2 ^ 52 + 1 / 2 ^ 53)
          + 1 / 2 ^ 52 + 1 / 2 ^ 53"
  proof (rule fadd_error [OF s4 e5])
    from s4 e5 E small show "\<bar>fadd (fadd (fadd p1 p2) p3) p4 + p5\<bar> < 2"
      by linarith
  qed
  define t where "t = fadd (fadd (fadd (fadd p1 p2) p3) p4) p5"
  have t: "\<bar>t - (E1 + E2 + E3 + E4 + E5)\<bar> \<le> 14 / 2 ^ 53"
    using s5 unfolding t_def by simp
  have "(14::real) / 2 ^ 53 \<le> 1 / 100" by simp
  with t E have "\<bar>t * 100\<bar> < 128" by linarith
  then have "\<bar>fmul t 100 - t * 100\<bar> \<le> 1 / 2 ^ 47" unfolding fmul_def by (rule dbl_error_128)
  moreover have "\<bar>t * 100 - 100 * (E1 + E2 + E3 + E4 + E5)\<bar> \<le> 1400 / 2 ^ 53"
    using t by (simp add: abs_if split: if_splits)
  ultimately have "\<bar>fmul t 100 - 100 * (E1 + E2 + E3 + E4 + E5)\<bar> \<le> 1 / 10 ^ 12"
    by (rule abs_chain) simp
  then show ?thesis
    unfolding t_def p1_def p2_def p3_def p4_def p5_def E1_def E2_def E3_def E4_def E5_def
    by simp
qed


lemma trust_example: "compute_trust_score 0 0 1 (7 / 8) 0 = 5892678637437583 / 2 ^ 47"
  unfolding compute_trust_score_def Let_def
  by (simp add: py_round_def np_clip_def ieee_eval)

lemma dbl_4187: "dbl (4187 / 100) = 5892678637437583 / 2 ^ 47"
  by (simp add: ieee_eval)

lemma dbl_4188: "dbl (4188 / 100) = 5894086012321137 / 2 ^ 47"
  by (simp add: ieee_eval)


text \<open>
  C1, as the code has it. For all model scores fraud, approval, stat_anom, deep_anom
  and doc_inconsistency in \<open>[0, 1]\<close>, the trust score is the weighted sum
  \<open>0.30 (1 - fraud) + 0.25 approval + 0.20 (1 - stat_anom) + 0.15 (1 - deep_anom)
  + 0.10 (1 - doc_inconsistency)\<close> evaluated in double arithmetic, times 100,
  clipped to \<open>[0, 100]\<close> (which leaves it unchanged) and rounded to two decimals:
  it is the double nearest to a hundredth \<open>k / 100\<close> that lies within \<open>0.005\<close>
  of the unrounded value, it lies in \<open>[0, 100]\<close>, and the unrounded value is within
  \<open>10\<^sup>-\<^sup>1\<^sup>2\<close> of 100 times the weighted sum in exact arithmetic.
\<close>

theorem trust_score_formula:
  assumes "0 \<le> fraud" "fraud \<le> 1" "0 \<le> approval" "approval \<le> 1"
    "0 \<le> stat_anom" "stat_anom \<le> 1" "0 \<le> deep_anom" "deep_anom \<le> 1"
    "0 \<le> doc_inconsistency" "doc_inconsistency \<le> 1"
  shows "let t = fadd (fadd (fadd (fadd
                  (fmul (dbl 0.30) (fsub 1 fraud))
                  (fmul (dbl 0.25) approval))
                  (fmul (dbl 0.20) (fsub 1 stat_anom)))
                  (fmul (dbl 0.15) (fsub 1 deep_anom)))
                  (fmul (dbl 0.10) (fsub 1 doc_inconsistency));
             score = compute_trust_score fraud approval stat_anom deep_anom doc_inconsistency
         in score = py_round (np_clip (fmul t 100) 0 100) 2 \<and>
            np_clip (fmul t 100) 0 100 = fmul t 100 \<and>
            (\<exists>k. 0 \<le> k \<and> k \<le> 10000 \<and> score = dbl (of_int k / 100) \<and>
                 \<bar>of_int k / 100 - fmul t 100\<bar> \<le> 1 / 200) \<and>
            0 \<le> score \<and> score \<le> 100 \<and>
            \<bar>fmul t 100
              - 100 * (0.30 * (1 - fraud) + 0.25 * approval + 0.20 * (1 - stat_anom)
                       + 0.15 * (1 - deep_anom) + 0.10 * (1 - doc_inconsistency))\<bar>
              \<le> 1 / 10 ^ 12"
proof -
  define t where "t = fadd (fadd (fadd (fadd
                  (fmul (dbl (WEIGHTS xgboost)) (fsub 1 fraud))
                  (fmul (dbl (WEIGHTS rf)) approval))
                  (fmul (dbl (WEIGHTS isolation)) (fsub 1 stat_anom)))
                  (fmul (dbl (WEIGHTS autoencoder)) (fsub 1 deep_anom)))
                  (fmul (dbl (WEIGHTS nlp)) (fsub 1 doc_inconsistency))"
  have t: "0 \<le> t \<and> t \<le> 1"
    unfolding t_def using assms fsub_unit
    by (intro weighted_sum_unit) simp_all
  have "fmul 0 100 \<le> fmul t 100" "fmul t 100 \<le> fmul 1 100"
    using t by (simp_all add: fmul_mono_right)
  then have x: "0 \<le> fmul t 100" "fmul t 100 \<le> 100"
    by (simp_all add: fmul_def dbl_0 dbl_100)
  then have idle: "np_clip (fmul t 100) 0 100 = fmul t 100"
    by (simp add: np_clip_def)
  have score: "compute_trust_score fraud approval stat_anom deep_anom doc_inconsistency =
      py_round (np_clip (fmul t 100) 0 100) 2"
    by (simp add: compute_trust_score_def t_def)
  from py_round_two_decimals [OF x] obtain k where k: "0 \<le> k" "k \<le> 10000"
    "py_round (fmul t 100) 2 = dbl (of_int k / 100)" "\<bar>of_int k / 100 - fmul t 100\<bar> \<le> 1 / 200"
    by blast
  have "dbl (of_int 0 / 100) \<le> dbl (of_int k / 100)" "dbl (of_int k / 100) \<le> dbl (of_int 10000 / 100)"
    using k(1,2) by (intro dbl_mono divide_right_mono; simp)+
  then have range: "0 \<le> dbl (of_int k / 100)" "dbl (of_int k / 100) \<le> 100"
    by (simp_all add: dbl_0 dbl_100)
  have err: "\<bar>fmul t 100
              - 100 * (0.30 * (1 - fraud) + 0.25 * approval + 0.20 * (1 - stat_anom)
                       + 0.15 * (1 - deep_anom) + 0.10 * (1 - doc_inconsistency))\<bar>
              \<le> 1 / 10 ^ 12"
    unfolding t_def using assms by (rule weighted_sum_error)
  show ?thesis
    unfolding Let_def t_def [symmetric, unfolded WEIGHTS.simps]
    using score idle k range err by (auto simp: t_def)
qed


theorem trust_score_formula_witness:
  "compute_trust_score 0 0 1 (7 / 8) 0 = dbl (4187 / 100) \<and>
   0 \<le> compute_trust_score 0 0 1 (7 / 8) 0 \<and>
   compute_trust_score 0 0 1 (7 / 8) 0 \<le> 100 \<and>
   \<bar>4187 / 100 - 100 * (0.30 * (1 - 0) + 0.25 * 0 + 0.20 * (1 - 1)
       + 0.15 * (1 - 7 / 8) + 0.10 * (1 - 0) :: real)\<bar> \<le> 1 / 200"
proof -
  have "0 \<le> compute_trust_score 0 0 1 (7 / 8) 0 \<and> compute_trust_score 0 0 1 (7 / 8) 0 \<le> 100"
    using trust_score_formula [of 0 0 1 "7 / 8" 0] unfolding Let_def by auto
  then show ?thesis
    by (simp add: trust_example dbl_4187)
qed

text \<open>
  C1 as stated takes the weighted sum in exact arithmetic. For fraud 0, approval 0,
  statistical anomaly 1, deep anomaly 0.875 and document inconsistency 0 (all
  doubles) the exact value is 41.875, which rounds to 41.88 whether ties go to the
  even neighbour or up; the double the code rounds lies just below 41.875, and the
  code returns 41.87.
\<close>

theorem trust_score_exact_counterexample:
  "spec_trust_score 0 0 1 (7 / 8) 0 = 41.88 \<and>
   compute_trust_score 0 0 1 (7 / 8) 0 = dbl 41.87 \<and>
   compute_trust_score 0 0 1 (7 / 8) 0 \<noteq> spec_trust_score 0 0 1 (7 / 8) 0 \<and>
   compute_trust_score 0 0 1 (7 / 8) 0 \<noteq> dbl (spec_trust_score 0 0 1 (7 / 8) 0)"
proof -
  have s: "spec_trust_score 0 0 1 (7 / 8) 0 = 41.88"
    unfolding spec_trust_score_def by (simp add: np_clip_def round_half_even_def)
  have d: "dbl 41.87 = 5892678637437583 / 2 ^ 47" "dbl 41.88 = 5894086012321137 / 2 ^ 47"
    by (simp_all add: ieee_eval)
  show ?thesis
    unfolding s trust_example d by simp
qed


subsection \<open>Recommendation bands\<close>

text \<open>
  C2. For every trust score \<open>t\<close> the recommendation is AUTO_APPROVE iff \<open>t \<ge> 85\<close>,
  APPROVE_WITH_REVIEW iff \<open>60 \<le> t < 85\<close>, COMPLIANCE_REVIEW_REQUIRED iff
  \<open>40 \<le> t < 60\<close> and HIGH_RISK_HOLD iff \<open>t < 40\<close>; the lower boundary of each
  band belongs to it. In particular 85.00 gives AUTO_APPROVE, 84.99 and 60.00 give
  APPROVE_WITH_REVIEW, and 39.99 gives HIGH_RISK_HOLD.
\<close>

theorem recommendation_bands:
  "(determine_recommendation t = ''AUTO_APPROVE'' \<longleftrightarrow> 85 \<le> t) \<and>
   (determine_recommendation t = ''APPROVE_WITH_REVIEW'' \<longleftrightarrow> 60 \<le> t \<and> t < 85) \<and>
   (determine_recommendation t = ''COMPLIANCE_REVIEW_REQUIRED'' \<longleftrightarrow> 40 \<le> t \<and> t < 60) \<and>
   (determine_recommendation t = ''HIGH_RISK_HOLD'' \<longleftrightarrow> t < 40) \<and>
   determine_recommendation 85.00 = ''AUTO_APPROVE'' \<and>
   determine_recommendation 84.99 = ''APPROVE_WITH_REVIEW'' \<and>
   determine_recommendation 60.00 = ''APPROVE_WITH_REVIEW'' \<and>
   determine_recommendation 39.99 = ''HIGH_RISK_HOLD''"
  by (simp add: determine_recommendation_def)

subsection \<open>The duplicate-claim flag\<close>

text \<open>
  C7. The duplicate-claim flag should be set if and only if some other claim of the
  same patient with overlapping procedure codes exists in the trailing 90 days. The
  query of \<^verbatim>\<open>_check_duplicate\<close> never compares procedure codes: with one other
  claim of the same patient a day earlier, for a different procedure, the flag is 1,
  although no claim with an overlapping code exists.
\<close>

theorem duplicate_flag_ignores_procedure_codes:
  "check_duplicate (days 100) (Some [visit_claim, surgery_claim]) visit_claim \<and>
   build_duplicate_claim_flag (days 100) (Some [visit_claim, surgery_claim]) visit_claim = 1 \<and>
   set (codes_of surgery_claim) \<inter> set (codes_of visit_claim) = {} \<and>
   \<not> spec_duplicate (days 100) [visit_claim, surgery_claim] visit_claim"
  by (simp add: check_duplicate_def build_duplicate_claim_flag_def spec_duplicate_def
      codes_of_def truthy_def has_value_def nonempty_def visit_claim_def surgery_claim_def days_def)

subsection \<open>The fact extractor on empty text\<close>

text \<open>
  C10. On empty text the extractor returns, whatever the patterns are, the fixed
  result with confidence 0.0, the single risk NO_TEXT_AVAILABLE, no diagnosis or
  procedure codes, no policies and \<open>is_consistent\<close> false.
\<close>

theorem extract_empty_text:
  "extract_facts lib '''' =
     \<lparr>diagnosis_codes = [], procedure_codes = [], physician_identifiers = [],
      authorization_indicators = [], matched_policies = [],
      detected_risks = [''NO_TEXT_AVAILABLE''], is_consistent = False,
      facts_confidence = 0.0, summary = ''No text provided''\<rparr>"
  by (simp add: extract_facts_def nonempty_def)


end
